theory Spec2Isabelle
  imports Complex_Main
begin

section \<open>Python values used by \<^verbatim>\<open>hxrsnd/plans/calibration.py\<close>\<close>

text \<open>
  Exceptions are values. \<open>LimitError\<close> is ophyd's; \<open>KeyboardInterrupt\<close> is the one
  listed exception that is a \<open>BaseException\<close> but not an \<open>Exception\<close>, so that
  \<^verbatim>\<open>except Exception\<close> does not catch it.
\<close>

datatype exn =
    NameError string
  | TypeError string
  | ValueError string
  | KeyError string
  | IndexError
  | ZeroDivisionError
  | RuntimeError
  | LimitError
  | EOFError
  | KeyboardInterrupt

fun is_Exception :: "exn \<Rightarrow> bool" where
  "is_Exception KeyboardInterrupt = False"
| "is_Exception _ = True"

text \<open>Strings are character lists. \<open>contains s sub\<close> is Python's \<^verbatim>\<open>sub in s\<close>,
  \<open>endswith\<close> is \<^verbatim>\<open>str.endswith\<close>, \<open>drop_last4 col\<close> is \<^verbatim>\<open>col[:-4]\<close> and
  \<open>lower\<close> is \<^verbatim>\<open>str.lower\<close> on ASCII.\<close>

fun startswith :: "string \<Rightarrow> string \<Rightarrow> bool" where
  "startswith s [] = True"
| "startswith [] (p # ps) = False"
| "startswith (c # cs) (p # ps) = (c = p \<and> startswith cs ps)"

fun contains :: "string \<Rightarrow> string \<Rightarrow> bool" where
  "contains [] sub = (sub = [])"
| "contains (c # cs) sub = (startswith (c # cs) sub \<or> contains cs sub)"

definition endswith :: "string \<Rightarrow> string \<Rightarrow> bool" where
  "endswith s suf = (length suf \<le> length s \<and> drop (length s - length suf) s = suf)"

definition drop_last4 :: "string \<Rightarrow> string" where
  "drop_last4 col = take (length col - 4) col"

definition lower_char :: "char \<Rightarrow> char" where
  "lower_char c =
     (let n = (of_char c :: nat) in if 65 \<le> n \<and> n \<le> 90 then char_of (n + 32) else c)"

definition lower :: "string \<Rightarrow> string" where
  "lower s = map lower_char s"

section \<open>Data frames\<close>

text \<open>
  A pandas \<open>DataFrame\<close> of floats: the index (here the commanded positions of the scan)
  and the labelled columns in their order. Floats are modelled as reals. pandas keeps
  every column as long as the index; \<open>wf_df\<close> says so and adds that the labels are
  distinct, which is what the single-column reads below rely on (for a repeated label
  pandas hands back a sub-frame, which is outside this model).
\<close>

record 'a dataframe =
  index :: "'a list"
  columns :: "(string \<times> 'a list) list"

definition labels :: "'a dataframe \<Rightarrow> string list" where
  "labels df = map fst (columns df)"

definition wf_df :: "'a dataframe \<Rightarrow> bool" where
  "wf_df df =
     (distinct (labels df) \<and> list_all (\<lambda>cv. length (snd cv) = length (index df)) (columns df))"

text \<open>\<^verbatim>\<open>df[c]\<close>: the column labelled \<open>c\<close>, \<open>KeyError\<close> when there is none.\<close>

definition getcol :: "'a dataframe \<Rightarrow> string \<Rightarrow> exn + 'a list" where
  "getcol df c = (case map_of (columns df) c of None \<Rightarrow> Inl (KeyError c) | Some v \<Rightarrow> Inr v)"

text \<open>\<^verbatim>\<open>df[c] = v\<close>: replaces the column labelled \<open>c\<close> where it stands, or appends a
  new one.\<close>

definition setcol :: "'a dataframe \<Rightarrow> string \<Rightarrow> 'a list \<Rightarrow> 'a dataframe" where
  "setcol df c v =
     (if c \<in> set (labels df)
      then df\<lparr>columns := map (\<lambda>kv. if fst kv = c then (c, v) else kv) (columns df)\<rparr>
      else df\<lparr>columns := columns df @ [(c, v)]\<rparr>)"

text \<open>\<^verbatim>\<open>series.iloc[0]\<close>.\<close>

definition iloc0 :: "'a list \<Rightarrow> exn + 'a" where
  "iloc0 xs = (case xs of [] \<Rightarrow> Inl IndexError | x # _ \<Rightarrow> Inr x)"

text \<open>\<^verbatim>\<open>df[names]\<close>: the listed columns, in the order of the list.\<close>

fun select :: "'a dataframe \<Rightarrow> string list \<Rightarrow> exn + (string \<times> 'a list) list" where
  "select df [] = Inr []"
| "select df (c # cs) =
     (case map_of (columns df) c of
        None \<Rightarrow> Inl (KeyError c)
      | Some v \<Rightarrow> (case select df cs of Inl e \<Rightarrow> Inl e | Inr r \<Rightarrow> Inr ((c, v) # r)))"

section \<open>Floating-point numbers\<close>

text \<open>
  The values of a frame, the scales and the start positions are float64 numbers. A
  float64 number is a real number, an infinity, or NaN; the two zeros are not told
  apart, which no operation of these lines does either. The result of an operation on
  two numbers is the exact result rounded, and \<open>rnd\<close> is that rounding: it gives the
  nearest float64 number, an infinity on overflow. It is an argument of the model. An
  operation with an infinity or NaN follows IEEE 754.
\<close>

datatype fl = Finite real | PInf | NInf | NaN

fun fl_sub :: "(real \<Rightarrow> fl) \<Rightarrow> fl \<Rightarrow> fl \<Rightarrow> fl" where
  "fl_sub rnd (Finite x) (Finite y) = rnd (x - y)"
| "fl_sub rnd NaN b = NaN"
| "fl_sub rnd a NaN = NaN"
| "fl_sub rnd PInf PInf = NaN"
| "fl_sub rnd NInf NInf = NaN"
| "fl_sub rnd PInf b = PInf"
| "fl_sub rnd NInf b = NInf"
| "fl_sub rnd (Finite x) PInf = NInf"
| "fl_sub rnd (Finite x) NInf = PInf"

fun fl_mul :: "(real \<Rightarrow> fl) \<Rightarrow> fl \<Rightarrow> fl \<Rightarrow> fl" where
  "fl_mul rnd (Finite x) (Finite y) = rnd (x * y)"
| "fl_mul rnd NaN b = NaN"
| "fl_mul rnd a NaN = NaN"
| "fl_mul rnd (Finite x) PInf = (if x = 0 then NaN else if 0 < x then PInf else NInf)"
| "fl_mul rnd (Finite x) NInf = (if x = 0 then NaN else if 0 < x then NInf else PInf)"
| "fl_mul rnd PInf (Finite y) = (if y = 0 then NaN else if 0 < y then PInf else NInf)"
| "fl_mul rnd NInf (Finite y) = (if y = 0 then NaN else if 0 < y then NInf else PInf)"
| "fl_mul rnd PInf PInf = PInf"
| "fl_mul rnd PInf NInf = NInf"
| "fl_mul rnd NInf PInf = NInf"
| "fl_mul rnd NInf NInf = PInf"

section \<open>Devices\<close>

record detector =
  dname :: string

record motor =
  ident :: nat
  mname :: string
  desc :: string

section \<open>\<^verbatim>\<open>build_calibration_df\<close> (lines 412--469)\<close>

text \<open>The three field lists are read off the labels of the scan frame (lines 443--446).\<close>

definition detector_fields_of :: "'a dataframe \<Rightarrow> detector \<Rightarrow> string list" where
  "detector_fields_of df_scan det = filter (\<lambda>col. contains col (dname det)) (labels df_scan)"

definition calib_fields_of :: "'a dataframe \<Rightarrow> string list" where
  "calib_fields_of df_scan =
     map drop_last4 (filter (\<lambda>col. endswith col ''_pre'') (labels df_scan))"

definition motor_fields_of :: "'a dataframe \<Rightarrow> detector \<Rightarrow> string list" where
  "motor_fields_of df_scan det =
     filter (\<lambda>col. col \<notin> set (detector_fields_of df_scan det) \<and> \<not> endswith col ''_pre'')
       (labels df_scan)"

text \<open>
  The loop of lines 457--464 over \<^verbatim>\<open>zip(scaling, start_positions, calib_fields,
  detector_fields)\<close>, on the frame \<open>df_corrections\<close> it fills. Series arithmetic is
  elementwise: both operands carry the index of the scan frame. Line 460 is a
  subtraction, a multiplication and a subtraction, each one rounded.
\<close>

fun corrections ::
  "(real \<Rightarrow> fl) \<Rightarrow> fl dataframe \<Rightarrow> (fl \<times> fl \<times> string \<times> string) list \<Rightarrow> fl dataframe
     \<Rightarrow> exn + fl dataframe" where
  "corrections rnd df_scan [] df_corrections = Inr df_corrections"
| "corrections rnd df_scan ((scale, start, cfld, dfld) # rest) df_corrections =
     (case getcol df_scan dfld of
        Inl e \<Rightarrow> Inl e
      | Inr d \<Rightarrow>
          (case iloc0 d of
             Inl e \<Rightarrow> Inl e
           | Inr d0 \<Rightarrow>
               (let df1 = setcol df_corrections (cfld @ ''_post_abs'')
                            (map (\<lambda>v. fl_sub rnd start (fl_mul rnd (fl_sub rnd v d0) scale)) d)
                in case getcol df1 (cfld @ ''_post_abs'') of
                     Inl e \<Rightarrow> Inl e
                   | Inr a \<Rightarrow>
                       (case getcol df_scan (cfld @ ''_pre'') of
                          Inl e \<Rightarrow> Inl e
                        | Inr pre \<Rightarrow>
                            corrections rnd df_scan rest
                              (setcol df1 (cfld @ ''_post_rel'') (map2 (fl_sub rnd) a pre))))))"

definition build_calibration_df ::
  "(real \<Rightarrow> fl) \<Rightarrow> fl dataframe \<Rightarrow> fl list \<Rightarrow> fl list \<Rightarrow> detector \<Rightarrow> exn + fl dataframe" where
  "build_calibration_df rnd df_scan scaling start_positions det =
     (let detector_fields = detector_fields_of df_scan det;
          calib_fields = calib_fields_of df_scan;
          motor_fields = motor_fields_of df_scan det
      in if length detector_fields \<noteq> length calib_fields
         then Inl (ValueError ''Must have same number of calibration fields as detector fields'')
         else
           (case corrections rnd df_scan
                   (zip scaling (zip start_positions (zip calib_fields detector_fields)))
                   \<lparr>index = index df_scan, columns = []\<rparr> of
              Inl e \<Rightarrow> Inl e
            | Inr df_corrections \<Rightarrow>
                (case select df_scan motor_fields of
                   Inl e \<Rightarrow> Inl e
                 | Inr ms \<Rightarrow>
                     Inr \<lparr>index = index df_scan, columns = ms @ columns df_corrections\<rparr>)))"

section \<open>Plans and their collaborators\<close>

text \<open>
  The functions of the module are bluesky plans: generators that hand requests to the
  run engine and to other plans. A plan is modelled as a function on a state made of
  the world \<open>'w\<close> (hardware, console, whatever the collaborators read and change) and
  the list of events the module has caused so far, in order; it returns the value of
  the generator or the exception it raised.
\<close>

datatype loglevel = DEBUG | INFO | WARNING

datatype logarg = AStr string | ANum real | AExn exn

datatype event =
    ReadConfiguration motor
  | LogMsg loglevel string "logarg list"
  | Prompt string
  | CentroidScan detector motor real real int "motor list" "string list"
  | MeasureAverage detector "motor list"
  | WalkToPixel detector motor real "string list" "motor list" nat
  | AbsSet motor real string
  | Wait string
  | Configure motor "real dataframe" "motor list" "real list" "real list"

type_synonym 'w state = "'w \<times> event list"

type_synonym ('w, 'a) plan = "'w state \<Rightarrow> (exn + 'a) \<times> 'w state"

text \<open>
  What the module imports and does not define is a parameter of the model:
  \<^item> \<open>as_list_fields\<close>, \<open>as_list_motors\<close>: \<^verbatim>\<open>hxrsnd.utils.as_list\<close> on a list of names and
    on a list of motors;
  \<^item> \<open>position\<close>: \<^verbatim>\<open>motor.position\<close>; \<open>has_calib\<close> and \<open>has_motors\<close>: the truth values of
    \<^verbatim>\<open>motor.read_configuration()['calib']['value']\<close> and \<^verbatim>\<open>['motors']['value']\<close>;
  \<^item> \<open>input_builtin\<close>: what \<^verbatim>\<open>input(...)\<close> returns or raises; \<open>short_uid\<close>: bluesky's;
  \<^item> \<open>centroid_scan\<close>, \<open>measure_average\<close>, \<open>walk_to_pixel\<close>: the plans of
    \<^verbatim>\<open>hxrsnd.plans.scans\<close> and pswalker, as functions on the world. The tuning arguments
    (first step, tolerance, gradient, step limit, averaging, filters) reach only
    these plans and are left inside them; \<open>walk_to_pixel\<close> gets the channel number
    that selects them;
  \<^item> \<open>truediv\<close>: the \<^verbatim>\<open>/\<close> of the numbers \<open>measure_average\<close> returns. Their class is
    fixed by pswalker: on Python floats a zero divisor raises \<open>ZeroDivisionError\<close>, on
    NumPy floats it yields an infinity or a NaN.
\<close>

record 'w ext =
  as_list_fields :: "string list \<Rightarrow> string list"
  as_list_motors :: "motor list \<Rightarrow> motor list"
  position :: "'w \<Rightarrow> motor \<Rightarrow> real"
  has_calib :: "'w \<Rightarrow> motor \<Rightarrow> bool"
  has_motors :: "'w \<Rightarrow> motor \<Rightarrow> bool"
  input_builtin :: "'w \<Rightarrow> exn + string"
  short_uid :: "'w \<Rightarrow> string"
  centroid_scan ::
    "detector \<Rightarrow> motor \<Rightarrow> real \<Rightarrow> real \<Rightarrow> int \<Rightarrow> motor list \<Rightarrow> string list \<Rightarrow> 'w
       \<Rightarrow> (exn + real dataframe) \<times> 'w"
  measure_average :: "detector \<Rightarrow> motor list \<Rightarrow> 'w \<Rightarrow> (exn + (string \<times> real) list) \<times> 'w"
  walk_to_pixel ::
    "detector \<Rightarrow> motor \<Rightarrow> real \<Rightarrow> string list \<Rightarrow> motor list \<Rightarrow> nat \<Rightarrow> 'w \<Rightarrow> (exn + unit) \<times> 'w"
  truediv :: "real \<Rightarrow> real \<Rightarrow> exn + real"

definition emit :: "event \<Rightarrow> 'w state \<Rightarrow> 'w state" where
  "emit e s = (fst s, snd s @ [e])"

definition ret :: "'a \<Rightarrow> ('w, 'a) plan" where
  "ret x s = (Inr x, s)"

definition raise :: "exn \<Rightarrow> ('w, 'a) plan" where
  "raise e s = (Inl e, s)"

definition lift :: "exn + 'a \<Rightarrow> ('w, 'a) plan" where
  "lift r s = (r, s)"

definition tell :: "event \<Rightarrow> ('w, unit) plan" where
  "tell e s = (Inr (), emit e s)"

text \<open>\<open>call e f\<close>: the request \<open>e\<close> is recorded, then the collaborator \<open>f\<close> acts on the
  world.\<close>

definition call :: "event \<Rightarrow> ('w \<Rightarrow> (exn + 'a) \<times> 'w) \<Rightarrow> ('w, 'a) plan" where
  "call e f s = (case f (fst s) of (r, w') \<Rightarrow> (r, (w', snd s @ [e])))"

definition pbind :: "('w, 'a) plan \<Rightarrow> ('a \<Rightarrow> ('w, 'b) plan) \<Rightarrow> ('w, 'b) plan" where
  "pbind m f s = (case m s of (Inl e, s') \<Rightarrow> (Inl e, s') | (Inr x, s') \<Rightarrow> f x s')"

text \<open>\<^verbatim>\<open>reads[k]\<close> on the dictionary \<open>measure_average\<close> returns.\<close>

definition getitem :: "(string \<times> real) list \<Rightarrow> string \<Rightarrow> exn + real" where
  "getitem reads k = (case map_of reads k of None \<Rightarrow> Inl (KeyError k) | Some v \<Rightarrow> Inr v)"

text \<open>\<^verbatim>\<open>a or b\<close> on an optional list: \<open>None\<close> and the empty list are false.\<close>

definition py_or :: "string list option \<Rightarrow> string list \<Rightarrow> string list" where
  "py_or a b = (case a of None \<Rightarrow> b | Some l \<Rightarrow> if l = [] then b else l)"

text \<open>
  \<^verbatim>\<open>numpy.ndarray.argmax\<close>: the index of the largest entry, the first one where it occurs
  more than once (NumPy's documented behaviour); \<open>ValueError\<close> on an empty array.
\<close>

fun argmax_from :: "real list \<Rightarrow> nat \<Rightarrow> real \<Rightarrow> nat \<Rightarrow> nat" where
  "argmax_from [] i best ibest = ibest"
| "argmax_from (x # xs) i best ibest =
     (if best < x then argmax_from xs (Suc i) x i else argmax_from xs (Suc i) best ibest)"

definition argmax :: "real list \<Rightarrow> exn + nat" where
  "argmax xs =
     (case xs of
        [] \<Rightarrow> Inl (ValueError ''attempt to get argmax of an empty sequence'')
      | x # r \<Rightarrow> Inr (argmax_from r 1 x 0))"

section \<open>\<^verbatim>\<open>detector_scaling_walk\<close> (lines 274--410)\<close>

text \<open>Line 369: \<^verbatim>\<open>abs(df_scan[dfld] - dfld_start).values.argmax()\<close>.\<close>

definition farthest_row :: "real dataframe \<Rightarrow> string \<Rightarrow> real \<Rightarrow> exn + nat" where
  "farthest_row df_scan dfld dfld_start =
     (case getcol df_scan dfld of
        Inl e \<Rightarrow> Inl e
      | Inr d \<Rightarrow> argmax (map (\<lambda>v. \<bar>v - dfld_start\<bar>) d))"

text \<open>\<^verbatim>\<open>df_scan.iloc[idx][dfld]\<close>.\<close>

definition iloc_at :: "real dataframe \<Rightarrow> nat \<Rightarrow> string \<Rightarrow> exn + real" where
  "iloc_at df idx c =
     (if length (index df) \<le> idx then Inl IndexError
      else case getcol df c of
             Inl e \<Rightarrow> Inl e
           | Inr d \<Rightarrow> if idx < length d then Inr (d ! idx) else Inl IndexError)"

text \<open>
  The \<^verbatim>\<open>try\<close> statement of lines 372--395: the walk to the value of the farthest row,
  with the two handlers. Any other exception leaves the statement.
\<close>

definition walk_or_warn ::
  "'w ext \<Rightarrow> real dataframe \<Rightarrow> detector \<Rightarrow> motor \<Rightarrow> string \<Rightarrow> string \<Rightarrow> motor list \<Rightarrow> nat \<Rightarrow> nat
     \<Rightarrow> ('w, unit) plan" where
  "walk_or_warn X df_scan det cmotor dfld cfld inp_system i idx_max s =
     (case iloc_at df_scan idx_max dfld of
        Inl e \<Rightarrow> (Inl e, s)
      | Inr target \<Rightarrow>
          (let s1 = emit (LogMsg DEBUG ''Beginning walk to {0} on {1} using {2}''
                        [ANum target, AStr (dname det), AStr (mname cmotor)]) s
           in case call (WalkToPixel det cmotor target [dfld, cfld] inp_system i)
                     (walk_to_pixel X det cmotor target [dfld, cfld] inp_system i) s1 of
                (Inr u, s2) \<Rightarrow> (Inr (), s2)
              | (Inl e, s2) \<Rightarrow>
                  if e = RuntimeError
                  then (Inr (), emit (LogMsg WARNING
                          ''walk_to_pixel raised a RuntimeError for motor {0}. Using its current position {1} for scale calulation.''
                          [AStr (desc cmotor), ANum (position X (fst s2) cmotor)]) s2)
                  else if e = LimitError
                  then (Inr (), emit (LogMsg WARNING
                          ''walk_to_pixel tried to exceed the limits of motor {0}. Using current position {1} for scale calculation.''
                          [AStr (desc cmotor), ANum (position X (fst s2) cmotor)]) s2)
                  else (Inl e, s2)))"

text \<open>Lines 397--407: the second measurement, the scale and the start position.\<close>

definition channel_end ::
  "'w ext \<Rightarrow> detector \<Rightarrow> motor list \<Rightarrow> string \<Rightarrow> string \<Rightarrow> real \<Rightarrow> real \<Rightarrow> ('w, real \<times> real) plan" where
  "channel_end X det system dfld cfld motor_start dfld_start =
     pbind (call (MeasureAverage det system) (measure_average X det system)) (\<lambda>reads.
     pbind (lift (getitem reads cfld)) (\<lambda>motor_end.
     pbind (lift (getitem reads dfld)) (\<lambda>dfld_end.
     pbind (lift (truediv X (motor_end - motor_start) (dfld_end - dfld_start))) (\<lambda>scale.
     ret (scale, motor_start)))))"

text \<open>One pass of the loop of lines 353--407, for the channel \<open>(dfld, cfld, cmotor)\<close>.\<close>

definition scale_channel ::
  "'w ext \<Rightarrow> real dataframe \<Rightarrow> detector \<Rightarrow> motor list \<Rightarrow> nat \<Rightarrow> string \<times> string \<times> motor
     \<Rightarrow> ('w, real \<times> real) plan" where
  "scale_channel X df_scan det system i ch =
     (case ch of (dfld, cfld, cmotor) \<Rightarrow>
        pbind (lift (if cmotor \<in> set system then Inr (remove1 cmotor system)
                     else Inl (ValueError ''list.remove(x): x not in list''))) (\<lambda>inp_system.
        pbind (call (MeasureAverage det system) (measure_average X det system)) (\<lambda>reads.
        pbind (lift (getitem reads cfld)) (\<lambda>motor_start.
        pbind (lift (getitem reads dfld)) (\<lambda>dfld_start.
        pbind (lift (farthest_row df_scan dfld dfld_start)) (\<lambda>idx_max.
        pbind (walk_or_warn X df_scan det cmotor dfld cfld inp_system i idx_max) (\<lambda>u.
        channel_end X det system dfld cfld motor_start dfld_start)))))))"

fun walk_channels ::
  "'w ext \<Rightarrow> real dataframe \<Rightarrow> detector \<Rightarrow> motor list \<Rightarrow> nat \<Rightarrow> (string \<times> string \<times> motor) list
     \<Rightarrow> real list \<times> real list \<Rightarrow> ('w, real list \<times> real list) plan" where
  "walk_channels X df_scan det system i [] acc s = (Inr acc, s)"
| "walk_channels X df_scan det system i (ch # rest) acc s =
     (case scale_channel X df_scan det system i ch s of
        (Inl e, s') \<Rightarrow> (Inl e, s')
      | (Inr sm, s') \<Rightarrow>
          walk_channels X df_scan det system (Suc i) rest
            (fst acc @ [fst sm], snd acc @ [snd sm]) s')"

definition detector_scaling_walk ::
  "'w ext \<Rightarrow> real dataframe \<Rightarrow> detector \<Rightarrow> motor list \<Rightarrow> motor list
     \<Rightarrow> ('w, real list \<times> real list) plan" where
  "detector_scaling_walk X df_scan det calib_motors system s =
     (let detector_fields = detector_fields_of df_scan det;
          calib_fields = calib_fields_of df_scan
      in if length detector_fields \<noteq> length calib_fields
         then (Inl (ValueError ''Must have same number of calibration fields as detector fields''), s)
         else
           (let calib_motors' = as_list_motors X calib_motors;
                system' = as_list_motors X system @ calib_motors'
            in walk_channels X df_scan det system' 0
                 (zip detector_fields (zip calib_fields calib_motors')) ([], []) s))"

section \<open>\<^verbatim>\<open>calibration_centroid_scan\<close> (lines 205--272)\<close>

definition rename_pre :: "string list \<Rightarrow> real dataframe \<Rightarrow> real dataframe" where
  "rename_pre calib_fields df =
     df\<lparr>columns := map (\<lambda>cv. (if fst cv \<in> set calib_fields then fst cv @ ''_pre'' else fst cv, snd cv))
                       (columns df)\<rparr>"

definition calibration_centroid_scan ::
  "'w ext \<Rightarrow> detector \<Rightarrow> motor \<Rightarrow> motor list \<Rightarrow> real \<Rightarrow> real \<Rightarrow> int \<Rightarrow> string list option
     \<Rightarrow> ('w, real dataframe) plan" where
  "calibration_centroid_scan X det motor calib_motors start stop steps calib_fields s =
     (let calib_fields' = as_list_fields X (py_or calib_fields (map mname calib_motors))
      in if length calib_motors \<noteq> length calib_fields'
         then (Inl (ValueError ''Must one calibration field for every calibration motor''), s)
         else pbind (call (CentroidScan det motor start stop steps calib_motors calib_fields')
                       (centroid_scan X det motor start stop steps calib_motors calib_fields'))
                (\<lambda>df. ret (rename_pre calib_fields' df)) s)"

section \<open>\<^verbatim>\<open>calibration_scan\<close> (lines 74--203)\<close>

text \<open>
  The three checks of lines 160--169, then the scan. The call of lines 183--195 hands
  \<^verbatim>\<open>detector_scaling_walk\<close> four positional arguments (\<^verbatim>\<open>df_scan, detector, motor,
  calib_motors\<close>); the fourth positional parameter of that function is \<^verbatim>\<open>first_step\<close>,
  which the same call also passes by keyword, so binding the arguments raises
  \<open>TypeError\<close> before the callee runs. Lines 197--203 are therefore not reached from
  here; \<open>detector_scaling_walk\<close> and \<open>build_calibration_df\<close> are modelled on their own.
\<close>

definition calibration_scan ::
  "'w ext \<Rightarrow> detector \<Rightarrow> string list \<Rightarrow> motor \<Rightarrow> motor list \<Rightarrow> string list option
     \<Rightarrow> real \<Rightarrow> real \<Rightarrow> int \<Rightarrow> int
     \<Rightarrow> ('w, real dataframe \<times> real dataframe \<times> real list \<times> real list) plan" where
  "calibration_scan X det detector_fields motor calib_motors calib_fields start stop steps
       window_length s =
     (let num = length detector_fields;
          calib_fields' = as_list_fields X (py_or calib_fields (map mname calib_motors))
      in if steps \<le> window_length
         then (Inl (ValueError ''Cannot apply savgol filter: steps must be greater than the window size''), s)
         else if length calib_motors \<noteq> num
         then (Inl (ValueError ''Must have same number of calibration motors as detector fields.''), s)
         else if length calib_fields' \<noteq> num
         then (Inl (ValueError ''Must have same number of calibration fields as detector fields.''), s)
         else pbind (tell (LogMsg DEBUG ''Beginning calibration scan'' [])) (\<lambda>u.
              pbind (calibration_centroid_scan X det motor calib_motors start stop steps
                       (Some calib_fields')) (\<lambda>df_scan.
              raise (TypeError ''detector_scaling_walk() got multiple values for argument first_step'')))
                s)"

section \<open>\<^verbatim>\<open>calibrate_motor\<close> (lines 23--72)\<close>

text \<open>Lines 37--41: the prompt. \<^verbatim>\<open>except Exception\<close> turns an exception into the answer
  \<open>n\<close>; what is not an \<open>Exception\<close> leaves the function.\<close>

definition prompt_response :: "'w ext \<Rightarrow> ('w, string) plan" where
  "prompt_response X s =
     (let s1 = emit (Prompt ''Confirm Overwrite [y/n]: '') s
      in case input_builtin X (fst s) of
           Inr response \<Rightarrow> (Inr response, s1)
         | Inl e \<Rightarrow>
             if is_Exception e
             then (Inr ''n'', emit (LogMsg WARNING ''Exception raised: {0}'' [AExn e]) s1)
             else (Inl e, s1))"

text \<open>Line 50: the dictionary from motor to position; a motor listed twice is one key,
  at its first place.\<close>

definition initial_motor_positions :: "'w ext \<Rightarrow> 'w \<Rightarrow> motor list \<Rightarrow> (motor \<times> real) list" where
  "initial_motor_positions X w ms = map (\<lambda>m. (m, position X w m)) (rev (remdups (rev ms)))"

text \<open>Lines 64--68: one \<^verbatim>\<open>abs_set\<close> per entry, all in one group, then the wait for the
  group.\<close>

definition restore :: "'w ext \<Rightarrow> (motor \<times> real) list \<Rightarrow> 'w state \<Rightarrow> 'w state" where
  "restore X initial s =
     (let group = short_uid X (fst s)
      in (fst s, snd s @ map (\<lambda>mp. AbsSet (fst mp) (snd mp) group) initial @ [Wait group]))"

text \<open>
  Lines 47--72. \<open>return_to_start\<close> is what the free name \<^verbatim>\<open>return_to_start\<close> of lines 48
  and 63 resolves to: \<open>None\<close> when the name is unbound, which raises \<open>NameError\<close>.
  \<open>scan_call\<close> is the generator the call of lines 54--59 gives, whatever it does; the
  field names of line 27 go nowhere but into that call.
\<close>

definition calibrate_body ::
  "bool option \<Rightarrow> 'w ext \<Rightarrow> ('w, real dataframe \<times> real dataframe \<times> real list \<times> real list) plan
     \<Rightarrow> motor \<Rightarrow> motor list \<Rightarrow> ('w, unit) plan" where
  "calibrate_body return_to_start X scan_call motor calib_motors s =
     (case return_to_start of
        None \<Rightarrow> (Inl (NameError ''return_to_start''), s)
      | Some rts \<Rightarrow>
          (let initial = initial_motor_positions X (fst s) (motor # calib_motors)
           in case scan_call s of
                (r, s1) \<Rightarrow>
                  (let s2 = (if rts then restore X initial s1 else s1)
                   in case r of
                        Inl e \<Rightarrow> (Inl e, s2)
                      | Inr res \<Rightarrow>
                          (case res of (df_calib, df_scan, scaling, start_pos) \<Rightarrow>
                             (Inr (), emit (Configure motor df_calib (motor # calib_motors)
                                              scaling start_pos) s2)))))"

definition calibrate_motor_in ::
  "bool option \<Rightarrow> 'w ext \<Rightarrow> ('w, real dataframe \<times> real dataframe \<times> real list \<times> real list) plan
     \<Rightarrow> motor \<Rightarrow> motor list \<Rightarrow> bool \<Rightarrow> ('w, unit) plan" where
  "calibrate_motor_in return_to_start X scan_call motor calib_motors confirm_overwrite s =
     (let calib_motors' = as_list_motors X calib_motors;
          s0 = emit (ReadConfiguration motor) s
      in if has_calib X (fst s) motor \<and> has_motors X (fst s) motor
         then
           (let s1 = emit (LogMsg WARNING
                        ''Running the calibration procedure will overwrite the existing calibration.'' []) s0
            in if confirm_overwrite
               then
                 (case prompt_response X s1 of
                    (Inl e, s2) \<Rightarrow> (Inl e, s2)
                  | (Inr response, s2) \<Rightarrow>
                      if lower response \<noteq> ''y''
                      then (Inr (), emit (LogMsg INFO ''Calibration cancelled.'' []) s2)
                      else calibrate_body return_to_start X scan_call motor calib_motors'
                             (emit (LogMsg DEBUG ''Overwrite confirmed.'' []) s2))
               else calibrate_body return_to_start X scan_call motor calib_motors' s1)
         else calibrate_body return_to_start X scan_call motor calib_motors' s0)"

text \<open>
  The module binds no name \<^verbatim>\<open>return_to_start\<close>: it is not a parameter of
  \<^verbatim>\<open>calibrate_motor\<close> (it is one of \<^verbatim>\<open>calibration_scan\<close>), not assigned in it, not
  imported and not a builtin. \<open>calibrate_motor\<close> is the function as the module has it.
\<close>

definition module_return_to_start :: "bool option" where
  "module_return_to_start = None"

definition calibrate_motor ::
  "'w ext \<Rightarrow> ('w, real dataframe \<times> real dataframe \<times> real list \<times> real list) plan
     \<Rightarrow> motor \<Rightarrow> motor list \<Rightarrow> bool \<Rightarrow> ('w, unit) plan" where
  "calibrate_motor = calibrate_motor_in module_return_to_start"

text \<open>
  The requests among the events: what is asked of the run engine (scan, measurement,
  walk, move, wait) and the write to the motor's configuration. Reading the
  configuration, logging and prompting are not requests.
\<close>

fun is_request :: "event \<Rightarrow> bool" where
  "is_request (CentroidScan d m a b n ms fs) = True"
| "is_request (MeasureAverage d ms) = True"
| "is_request (WalkToPixel d m t fs ms i) = True"
| "is_request (AbsSet m p g) = True"
| "is_request (Wait g) = True"
| "is_request (Configure m df ms sc st) = True"
| "is_request _ = False"

text \<open>The walks among a list of events, in order: the two target fields and the motor
  of each.\<close>

fun walked :: "event list \<Rightarrow> (string list \<times> motor) list" where
  "walked [] = []"
| "walked (WalkToPixel d m t fs ms i # es) = (fs, m) # walked es"
| "walked (e # es) = walked es"

section \<open>\<^verbatim>\<open>build_calibration_df\<close> on a store of frames\<close>

text \<open>
  In Python a frame is an object and \<^verbatim>\<open>df_scan\<close> a reference to it. To say what the
  function does to the objects it is given, the frames that exist are kept in a store,
  a list, and a reference is a position in it. A frame the function creates
  (\<^verbatim>\<open>pd.DataFrame(index=...)\<close>, \<^verbatim>\<open>df_scan[motor_fields]\<close>, \<^verbatim>\<open>pd.concat\<close>) is appended;
  \<^verbatim>\<open>df_corrections[label] = ...\<close> changes the frame at \<open>corr\<close> where it stands. The
  function is no generator and calls no collaborator, so there is no world here.
\<close>

type_synonym store = "fl dataframe list"

fun corrections_in ::
  "(real \<Rightarrow> fl) \<Rightarrow> store \<Rightarrow> nat \<Rightarrow> nat \<Rightarrow> (fl \<times> fl \<times> string \<times> string) list
     \<Rightarrow> exn option \<times> store" where
  "corrections_in rnd h scan corr [] = (None, h)"
| "corrections_in rnd h scan corr ((scale, start, cfld, dfld) # rest) =
     (case getcol (h ! scan) dfld of
        Inl e \<Rightarrow> (Some e, h)
      | Inr d \<Rightarrow>
          (case iloc0 d of
             Inl e \<Rightarrow> (Some e, h)
           | Inr d0 \<Rightarrow>
               (let h1 = h[corr := setcol (h ! corr) (cfld @ ''_post_abs'')
                                     (map (\<lambda>v. fl_sub rnd start (fl_mul rnd (fl_sub rnd v d0) scale)) d)]
                in case getcol (h1 ! corr) (cfld @ ''_post_abs'') of
                     Inl e \<Rightarrow> (Some e, h1)
                   | Inr a \<Rightarrow>
                       (case getcol (h1 ! scan) (cfld @ ''_pre'') of
                          Inl e \<Rightarrow> (Some e, h1)
                        | Inr pre \<Rightarrow>
                            corrections_in rnd
                              (h1[corr := setcol (h1 ! corr) (cfld @ ''_post_rel'')
                                            (map2 (fl_sub rnd) a pre)])
                              scan corr rest))))"

definition build_calibration_df_in ::
  "(real \<Rightarrow> fl) \<Rightarrow> store \<Rightarrow> nat \<Rightarrow> fl list \<Rightarrow> fl list \<Rightarrow> detector \<Rightarrow> (exn + nat) \<times> store" where
  "build_calibration_df_in rnd h scan scaling start_positions det =
     (let detector_fields = detector_fields_of (h ! scan) det;
          calib_fields = calib_fields_of (h ! scan);
          motor_fields = motor_fields_of (h ! scan) det
      in if length detector_fields \<noteq> length calib_fields
         then (Inl (ValueError ''Must have same number of calibration fields as detector fields''), h)
         else
           (let corr = length h;
                h1 = h @ [\<lparr>index = index (h ! scan), columns = []\<rparr>]
            in case corrections_in rnd h1 scan corr
                      (zip scaling (zip start_positions (zip calib_fields detector_fields))) of
                 (Some e, h2) \<Rightarrow> (Inl e, h2)
               | (None, h2) \<Rightarrow>
                   (case select (h2 ! scan) motor_fields of
                      Inl e \<Rightarrow> (Inl e, h2)
                    | Inr ms \<Rightarrow>
                        (let sel = length h2;
                             h3 = h2 @ [\<lparr>index = index (h2 ! scan), columns = ms\<rparr>];
                             out = length h3;
                             h4 = h3 @ [\<lparr>index = index (h3 ! sel),
                                         columns = columns (h3 ! sel) @ columns (h3 ! corr)\<rparr>]
                         in (Inr out, h4)))))"

text \<open>The frame, or the exception, a result on the store stands for.\<close>

definition deref :: "store \<Rightarrow> exn + nat \<Rightarrow> exn + fl dataframe" where
  "deref h r = (case r of Inl e \<Rightarrow> Inl e | Inr a \<Rightarrow> Inr (h ! a))"

section \<open>Concrete inputs\<close>

text \<open>A three-step scan with one detector field and one calibration motor.\<close>

definition scan3 :: "real dataframe" where
  "scan3 = \<lparr>index = [0, 1, 2],
             columns = [(''delay'', [0, 1, 2]), (''det_x'', [1, 2, 4]), (''m1_pre'', [5, 5, 6])]\<rparr>"


text \<open>
  Devices and collaborators for the concrete runs. The world is a counter of the walks
  made so far; the readings move with it. Every walk ends in \<open>LimitError\<close> after it has
  moved the motor. A calibration is loaded and the operator answers \<open>N\<close>.
\<close>

definition camera :: detector where
  "camera = \<lparr>dname = ''det''\<rparr>"

definition delay_motor :: motor where
  "delay_motor = \<lparr>ident = 0, mname = ''delay'', desc = ''delay stage''\<rparr>"

definition mirror_motor :: motor where
  "mirror_motor = \<lparr>ident = 1, mname = ''m1'', desc = ''mirror one''\<rparr>"

definition bench :: "nat ext" where
  "bench = \<lparr>as_list_fields = (\<lambda>l. l), as_list_motors = (\<lambda>l. l),
             position = (\<lambda>w m. 5 + 2 * real w),
             has_calib = (\<lambda>w m. True), has_motors = (\<lambda>w m. True),
             input_builtin = (\<lambda>w. Inr ''N''),
             short_uid = (\<lambda>w. ''set-1''),
             centroid_scan = (\<lambda>d m a b n ms fs w. (Inr scan3, w)),
             measure_average =
               (\<lambda>d ms w. (Inr [(''det_x'', 1 + real w), (''m1'', 5 + 2 * real w)], w)),
             walk_to_pixel = (\<lambda>d m t fs ms i w. (Inl LimitError, Suc w)),
             truediv = (\<lambda>a b. if b = 0 then Inl ZeroDivisionError else Inr (a / b))\<rparr>"

text \<open>The three-step scan with one more column that carries the detector's name, and
  with one more column that both carries the detector's name and ends in \<open>_pre\<close>.\<close>

definition scan3_extra :: "real dataframe" where
  "scan3_extra = scan3\<lparr>columns := columns scan3 @ [(''det_total'', [7, 7, 7])]\<rparr>"

definition scan3_both :: "real dataframe" where
  "scan3_both = scan3\<lparr>columns := columns scan3 @ [(''det_m2_pre'', [3, 4, 5])]\<rparr>"

text \<open>A second calibration motor, and a bench whose measurements also hold the two
  fields read off the column \<open>det_m2_pre\<close>.\<close>

definition spare_motor :: motor where
  "spare_motor = \<lparr>ident = 2, mname = ''m2'', desc = ''mirror two''\<rparr>"

definition bench2 :: "nat ext" where
  "bench2 = bench\<lparr>measure_average :=
               (\<lambda>d ms w. (Inr [(''det_x'', 1 + real w), (''m1'', 5 + 2 * real w),
                                (''det_m2_pre'', 3 + real w), (''det_m2'', 1 + 3 * real w)], w))\<rparr>"


text \<open>
  A frame of float64 numbers from a frame of real numbers. The frames above hold small
  integers, which are float64 numbers, and the operations made on them in the examples
  have float64 results, so that the rounding leaves them as they are: \<open>Finite\<close> is the
  rounding there.
\<close>

definition float_frame :: "real dataframe \<Rightarrow> fl dataframe" where
  "float_frame df =
     \<lparr>index = map Finite (index df),
      columns = map (\<lambda>cv. (fst cv, map Finite (snd cv))) (columns df)\<rparr>"

section \<open>Facts about data frames and the correction table\<close>

lemma map_of_replace:
  "map_of (map (\<lambda>kv. if fst kv = c then (c, v) else kv) xs) c' =
     (if c' = c \<and> c \<in> fst ` set xs then Some v else map_of xs c')"
  by (induction xs) force+

lemma map_of_append_new:
  "c \<notin> fst ` set xs \<Longrightarrow> map_of (xs @ [(c, v)]) c' = (if c' = c then Some v else map_of xs c')"
  by (induction xs) force+

lemma map_of_setcol:
  "map_of (columns (setcol df c v)) c' = (if c' = c then Some v else map_of (columns df) c')"
  by (simp add: setcol_def labels_def map_of_replace map_of_append_new del: map_of_append)

lemma getcol_setcol:
  "getcol (setcol df c v) c' = (if c' = c then Inr v else getcol df c')"
  by (simp add: getcol_def map_of_setcol)

lemma index_setcol: "index (setcol df c v) = index df"
  by (simp add: setcol_def)


lemma post_labels_differ [simp]:
  "(a @ ''_post_abs'' = b @ ''_post_abs'') = (a = b)"
  "(a @ ''_post_rel'' = b @ ''_post_rel'') = (a = b)"
  "a @ ''_post_abs'' \<noteq> b @ ''_post_rel''"
  "a @ ''_post_rel'' \<noteq> b @ ''_post_abs''"
  by simp_all

lemma corrections_keeps:
  "corrections rnd df chs acc = Inr r \<Longrightarrow>
   \<forall>ch \<in> set chs. c \<noteq> fst (snd (snd ch)) @ ''_post_abs'' \<and> c \<noteq> fst (snd (snd ch)) @ ''_post_rel'' \<Longrightarrow>
   getcol r c = getcol acc c"
  by (induction rnd df chs acc rule: corrections.induct)
     (auto simp: getcol_setcol Let_def split: sum.splits)

lemma corrections_succeeds:
  "\<forall>ch \<in> set chs. \<exists>d pre. getcol df (snd (snd (snd ch))) = Inr d \<and> d \<noteq> []
       \<and> getcol df (fst (snd (snd ch)) @ ''_pre'') = Inr pre \<Longrightarrow>
   \<exists>r. corrections rnd df chs acc = Inr r"
  by (induction rnd df chs acc rule: corrections.induct)
     (auto simp: getcol_setcol Let_def iloc0_def split: sum.splits list.splits)

lemma corrections_nth:
  "corrections rnd df chs acc = Inr r \<Longrightarrow> k < length chs \<Longrightarrow> chs ! k = (scale, start, cfld, dfld) \<Longrightarrow>
   distinct (map (\<lambda>ch. fst (snd (snd ch))) chs) \<Longrightarrow>
   getcol df dfld = Inr d \<Longrightarrow> getcol df (cfld @ ''_pre'') = Inr pre \<Longrightarrow>
   getcol r (cfld @ ''_post_abs'') = Inr (map (\<lambda>v. fl_sub rnd start (fl_mul rnd (fl_sub rnd v (hd d)) scale)) d) \<and>
   getcol r (cfld @ ''_post_rel'') = Inr (map2 (fl_sub rnd) (map (\<lambda>v. fl_sub rnd start (fl_mul rnd (fl_sub rnd v (hd d)) scale)) d) pre)"
proof (induction rnd df chs acc arbitrary: k rule: corrections.induct)
  case (1 rnd df_scan df_corrections)
  then show ?case by simp
next
  case (2 rnd df_scan scale' start' cfld' dfld' rest df_corrections)
  show ?case
  proof (cases k)
    case 0
    with "2.prems" have eq: "scale' = scale" "start' = start" "cfld' = cfld" "dfld' = dfld"
      by simp_all
    from "2.prems"(4) eq have fresh:
      "\<forall>ch \<in> set rest. cfld @ ''_post_abs'' \<noteq> fst (snd (snd ch)) @ ''_post_abs''
          \<and> cfld @ ''_post_abs'' \<noteq> fst (snd (snd ch)) @ ''_post_rel''"
      "\<forall>ch \<in> set rest. cfld @ ''_post_rel'' \<noteq> fst (snd (snd ch)) @ ''_post_abs''
          \<and> cfld @ ''_post_rel'' \<noteq> fst (snd (snd ch)) @ ''_post_rel''"
      by auto
    from "2.prems"(1,5,6) eq obtain d0 where d0: "iloc0 d = Inr d0"
      and rest: "corrections rnd df_scan rest
         (setcol (setcol df_corrections (cfld @ ''_post_abs'') (map (\<lambda>v. fl_sub rnd start (fl_mul rnd (fl_sub rnd v d0) scale)) d))
            (cfld @ ''_post_rel'') (map2 (fl_sub rnd) (map (\<lambda>v. fl_sub rnd start (fl_mul rnd (fl_sub rnd v d0) scale)) d) pre)) = Inr r"
      by (auto simp: getcol_setcol Let_def split: sum.splits)
    from d0 have hd: "d0 = hd d" by (auto simp: iloc0_def split: list.splits)
    show ?thesis
      using corrections_keeps[OF rest fresh(1)] corrections_keeps[OF rest fresh(2)]
      by (simp add: getcol_setcol hd)
  next
    case (Suc j)
    from "2.prems"(1) obtain d' d0' a' pre' where
      steps: "getcol df_scan dfld' = Inr d'" "iloc0 d' = Inr d0'"
        "getcol (setcol df_corrections (cfld' @ ''_post_abs'') (map (\<lambda>v. fl_sub rnd start' (fl_mul rnd (fl_sub rnd v d0') scale')) d'))
            (cfld' @ ''_post_abs'') = Inr a'"
        "getcol df_scan (cfld' @ ''_pre'') = Inr pre'"
      and rest: "corrections rnd df_scan rest
         (setcol (setcol df_corrections (cfld' @ ''_post_abs'') (map (\<lambda>v. fl_sub rnd start' (fl_mul rnd (fl_sub rnd v d0') scale')) d'))
            (cfld' @ ''_post_rel'') (map2 (fl_sub rnd) a' pre')) = Inr r"
      by (auto simp: Let_def split: sum.splits)
    show ?thesis
      using "2.IH"[OF steps(1) steps(2) refl steps(3) steps(4) rest, of j] "2.prems" Suc
      by simp
  qed
qed


lemma endswith_pre: "endswith col ''_pre'' \<Longrightarrow> drop_last4 col @ ''_pre'' = col"
proof -
  assume "endswith col ''_pre''"
  then have d: "drop (length col - 4) col = ''_pre''" by (simp add: endswith_def eval_nat_numeral)
  have "take (length col - 4) col @ drop (length col - 4) col = col"
    by (rule append_take_drop_id)
  then show ?thesis unfolding drop_last4_def d .
qed

lemma distinct_calib_fields: "distinct (labels df) \<Longrightarrow> distinct (calib_fields_of df)"
proof -
  assume d: "distinct (labels df)"
  have "inj_on drop_last4 (set (filter (\<lambda>col. endswith col ''_pre'') (labels df)))"
  proof (rule inj_onI)
    fix x y
    assume "x \<in> set (filter (\<lambda>col. endswith col ''_pre'') (labels df))"
      and "y \<in> set (filter (\<lambda>col. endswith col ''_pre'') (labels df))"
      and eq: "drop_last4 x = drop_last4 y"
    then have ex: "endswith x ''_pre''" and ey: "endswith y ''_pre''" by simp_all
    have "x = drop_last4 x @ ''_pre''" using endswith_pre[OF ex] by (rule sym)
    also have "\<dots> = drop_last4 y @ ''_pre''" unfolding eq ..
    also have "\<dots> = y" by (rule endswith_pre[OF ey])
    finally show "x = y" .
  qed
  with d show ?thesis by (simp add: calib_fields_of_def distinct_map)
qed

lemma calib_field_pre_label:
  "cfld \<in> set (calib_fields_of df) \<Longrightarrow> cfld @ ''_pre'' \<in> set (labels df)"
  by (auto simp: calib_fields_of_def endswith_pre)

lemma detector_field_label:
  "dfld \<in> set (detector_fields_of df det) \<Longrightarrow> dfld \<in> set (labels df)"
  by (simp add: detector_fields_of_def)

lemma getcol_label:
  "wf_df df \<Longrightarrow> c \<in> set (labels df) \<Longrightarrow> \<exists>v. getcol df c = Inr v \<and> length v = length (index df)"
proof -
  assume wf: "wf_df df" and c: "c \<in> set (labels df)"
  from c obtain v where v: "(c, v) \<in> set (columns df)" by (auto simp: labels_def)
  with wf have "map_of (columns df) c = Some v" by (simp add: wf_df_def labels_def)
  moreover from wf v have "length v = length (index df)"
    by (auto simp: wf_df_def list_all_iff)
  ultimately show ?thesis by (simp add: getcol_def)
qed

lemma select_labels:
  "set cs \<subseteq> set (labels df) \<Longrightarrow> \<exists>ms. select df cs = Inr ms \<and> map fst ms = cs"
proof (induction cs)
  case Nil
  then show ?case by simp
next
  case (Cons c cs)
  then obtain ms where "select df cs = Inr ms" "map fst ms = cs" by auto
  moreover from Cons.prems obtain v where "map_of (columns df) c = Some v"
    by (auto simp: labels_def dest: weak_map_of_SomeI)
  ultimately show ?case by simp
qed

lemma getcol_append_right:
  "c \<notin> fst ` set ms \<Longrightarrow> getcol \<lparr>index = ix, columns = ms @ cs\<rparr> c = getcol \<lparr>index = ix, columns = cs\<rparr> c"
proof -
  assume "c \<notin> fst ` set ms"
  then have "map_of ms c = None" by (simp add: map_of_eq_None_iff)
  then show ?thesis by (simp add: getcol_def map_add_def)
qed

lemma channel_fields:
  assumes "ch \<in> set (zip a (zip b (zip c d)))"
  shows "fst (snd (snd ch)) \<in> set c \<and> snd (snd (snd ch)) \<in> set d"
proof -
  obtain s t cf df where ch: "ch = (s, t, cf, df)" by (cases ch) auto
  with assms have "(t, cf, df) \<in> set (zip b (zip c d))" by (auto dest: set_zip_rightD)
  then have "(cf, df) \<in> set (zip c d)" by (auto dest: set_zip_rightD)
  then have "cf \<in> set c" "df \<in> set d" by (auto dest: set_zip_leftD set_zip_rightD)
  with ch show ?thesis by simp
qed

lemma channels_distinct:
  assumes "distinct c"
  shows "distinct (map (\<lambda>ch. fst (snd (snd ch))) (zip a (zip b (zip c d))))"
proof -
  have "map (\<lambda>ch. fst (snd (snd ch))) (zip a (zip b (zip c d))) =
        map fst (map snd (map snd (zip a (zip b (zip c d)))))"
    by (simp add: comp_def)
  also have "\<dots> = take (min (length a) (length (zip b (zip c d))))
                     (take (min (length b) (length (zip c d))) (take (min (length c) (length d)) c))"
    by (simp only: map_snd_zip_take map_fst_zip_take take_map[symmetric])
  finally show ?thesis using assms by (simp only: distinct_take)
qed

lemma float_frame_labels: "labels (float_frame df) = labels df"
  by (simp add: labels_def float_frame_def comp_def)

lemma float_frame_fields:
  "detector_fields_of (float_frame df) det = detector_fields_of df det"
  "calib_fields_of (float_frame df) = calib_fields_of df"
  "motor_fields_of (float_frame df) det = motor_fields_of df det"
  by (simp_all add: detector_fields_of_def calib_fields_of_def motor_fields_of_def
      float_frame_labels)

lemma float_frame_scan3:
  "float_frame scan3 =
     \<lparr>index = [Finite 0, Finite 1, Finite 2],
      columns = [(''delay'', [Finite 0, Finite 1, Finite 2]),
                 (''det_x'', [Finite 1, Finite 2, Finite 4]),
                 (''m1_pre'', [Finite 5, Finite 5, Finite 6])]\<rparr>"
  by (simp add: float_frame_def scan3_def)

lemma scan3_fields:
  "detector_fields_of scan3 camera = [''det_x'']"
  "calib_fields_of scan3 = [''m1'']"
  "motor_fields_of scan3 camera = [''delay'']"
  "labels scan3 = [''delay'', ''det_x'', ''m1_pre'']"
  by (simp_all add: scan3_def camera_def detector_fields_of_def calib_fields_of_def
      motor_fields_of_def labels_def endswith_def drop_last4_def)

section \<open>The farthest row\<close>




section \<open>Facts about the walk\<close>


lemma walk_or_warn_propagates:
  assumes "e \<noteq> RuntimeError" and "e \<noteq> LimitError"
    and "iloc_at df_scan idx dfld = Inr target"
    and "walk_to_pixel X det cmotor target [dfld, cfld] inp_system i (fst s) = (Inl e, w2)"
  shows "fst (walk_or_warn X df_scan det cmotor dfld cfld inp_system i idx s) = Inl e"
  using assms by (auto simp: walk_or_warn_def call_def emit_def Let_def)

lemma walked_append: "walked (a @ b) = walked a @ walked b"
  by (induction a rule: walked.induct) simp_all

lemma walk_or_warn_walked:
  "walk_or_warn X df_scan det cmotor dfld cfld inp_system i idx s = (Inr u, s') \<Longrightarrow>
   walked (snd s') = walked (snd s) @ [([dfld, cfld], cmotor)]"
  by (auto simp: walk_or_warn_def call_def emit_def Let_def walked_append
      split: sum.splits prod.splits if_splits)

lemma channel_end_walked:
  "channel_end X det system dfld cfld ms ds s = (r, s') \<Longrightarrow> walked (snd s') = walked (snd s)"
  by (auto simp: channel_end_def pbind_def call_def lift_def ret_def walked_append
      split: sum.splits prod.splits)

lemma scale_channel_walked:
  "scale_channel X df_scan det system i (dfld, cfld, cmotor) s = (Inr sm, s') \<Longrightarrow>
   walked (snd s') = walked (snd s) @ [([dfld, cfld], cmotor)]"
  by (auto simp: scale_channel_def pbind_def call_def lift_def walked_append
      split: sum.splits prod.splits if_splits
      dest!: walk_or_warn_walked channel_end_walked)

lemma walk_channels_walked:
  "walk_channels X df_scan det system i chs acc s = (Inr res, s') \<Longrightarrow>
   walked (snd s') = walked (snd s) @ map (\<lambda>ch. ([fst ch, fst (snd ch)], snd (snd ch))) chs
   \<and> length (fst res) = length (fst acc) + length chs
   \<and> length (snd res) = length (snd acc) + length chs"
proof (induction chs arbitrary: i acc s)
  case Nil
  then show ?case by simp
next
  case (Cons ch chs)
  obtain dfld cfld cmotor where ch: "ch = (dfld, cfld, cmotor)" by (cases ch) auto
  from Cons.prems obtain sm s1 where
    sc: "scale_channel X df_scan det system i (dfld, cfld, cmotor) s = (Inr sm, s1)"
    and rest: "walk_channels X df_scan det system (Suc i) chs (fst acc @ [fst sm], snd acc @ [snd sm]) s1
                = (Inr res, s')"
    by (auto simp: ch split: sum.splits prod.splits)
  from Cons.IH[OF rest] scale_channel_walked[OF sc] show ?case by (simp add: ch)
qed

lemma scan3_both_fields:
  "detector_fields_of scan3_both camera = [''det_x'', ''det_m2_pre'']"
  "calib_fields_of scan3_both = [''m1'', ''det_m2'']"
  by (simp_all add: scan3_both_def scan3_def camera_def detector_fields_of_def
      calib_fields_of_def labels_def endswith_def drop_last4_def)

lemma scan3_both_run:
  "\<exists>s'. detector_scaling_walk bench2 scan3_both camera [mirror_motor, spare_motor] [] (0, [])
          = (Inr ([2, 3], [5, 4]), s')"
  apply (simp add: detector_scaling_walk_def scan3_both_fields Let_def)
  by (simp add: scale_channel_def
      channel_end_def walk_or_warn_def pbind_def lift_def call_def ret_def emit_def
      bench2_def bench_def getitem_def farthest_row_def iloc_at_def getcol_def argmax_def
      scan3_both_def scan3_def mirror_motor_def spare_motor_def)

lemma scan3_extra_fields:
  "detector_fields_of scan3_extra camera = [''det_x'', ''det_total'']"
  "calib_fields_of scan3_extra = [''m1'']"
  by (simp_all add: scan3_extra_def scan3_def camera_def detector_fields_of_def
      calib_fields_of_def labels_def endswith_def drop_last4_def)

text \<open>
  Line 405 divides without a test. When the detector reading after the walk equals the
  one before, what the pass returns is what the division of the collaborator's numbers
  does with a zero divisor: its exception, or the value it yields.
\<close>

lemma zero_signal_follows_truediv:
  assumes "measure_average X det system (fst s) = (Inr reads, w3)"
    and "getitem reads cfld = Inr motor_end" and "getitem reads dfld = Inr dfld_start"
  shows "fst (channel_end X det system dfld cfld motor_start dfld_start s) =
           (case truediv X (motor_end - motor_start) 0 of
              Inl e \<Rightarrow> Inl e | Inr v \<Rightarrow> Inr (v, motor_start))"
  using assms
  by (auto simp: channel_end_def pbind_def call_def lift_def ret_def split: sum.splits)




section \<open>Facts about the orchestration\<close>

lemma calibration_centroid_scan_mismatch:
  assumes "length calib_motors \<noteq> length (as_list_fields X (py_or calib_fields (map mname calib_motors)))"
  shows "\<exists>msg. calibration_centroid_scan X det motor calib_motors start stop steps calib_fields s
           = (Inl (ValueError msg), s)"
  using assms by (simp add: calibration_centroid_scan_def Let_def)

lemma prompt_response_world:
  "prompt_response X s = (r, s') \<Longrightarrow> fst s' = fst s \<and> filter is_request (snd s') = filter is_request (snd s)"
  by (auto simp: prompt_response_def emit_def Let_def split: sum.splits if_splits)

lemma lower_N: "lower ''N'' = ''n''"
  by code_simp

text \<open>
  Were \<^verbatim>\<open>return_to_start\<close> bound to a true value, lines 47--72 would do what their
  comments say: whatever the scan call returns or raises, every motor of
  \<^verbatim>\<open>[motor] + calib_motors\<close> is sent once to the position read before the call, all
  moves in one group, then the group is awaited, and only after that the exception
  goes on or the calibration is written to the motor. Bound to a false value, nothing
  is restored.
\<close>

lemma initial_motor_positions_covers:
  "fst ` set (initial_motor_positions X w ms) = set ms"
  "distinct (map fst (initial_motor_positions X w ms))"
  "(m, p) \<in> set (initial_motor_positions X w ms) \<Longrightarrow> p = position X w m"
  by (auto simp: initial_motor_positions_def comp_def image_iff)

lemma calibrate_body_restores:
  assumes "scan_call s = (r, s1)"
  shows "calibrate_body (Some True) X scan_call motor calib_motors s =
     ((case r of Inl e \<Rightarrow> Inl e | Inr res \<Rightarrow> Inr ()),
      (fst s1, snd s1
         @ map (\<lambda>mp. AbsSet (fst mp) (snd mp) (short_uid X (fst s1)))
             (initial_motor_positions X (fst s) (motor # calib_motors))
         @ [Wait (short_uid X (fst s1))]
         @ (case r of Inl e \<Rightarrow> []
            | Inr res \<Rightarrow> [Configure motor (fst res) (motor # calib_motors)
                            (fst (snd (snd res))) (snd (snd (snd res)))])))"
  using assms
  by (auto simp: calibrate_body_def restore_def emit_def Let_def split: sum.splits prod.splits)

lemma calibrate_body_without_restoring:
  assumes "scan_call s = (r, s1)"
  shows "calibrate_body (Some False) X scan_call motor calib_motors s =
     ((case r of Inl e \<Rightarrow> Inl e | Inr res \<Rightarrow> Inr ()),
      (fst s1, snd s1
         @ (case r of Inl e \<Rightarrow> []
            | Inr res \<Rightarrow> [Configure motor (fst res) (motor # calib_motors)
                            (fst (snd (snd res))) (snd (snd (snd res)))])))"
  using assms
  by (auto simp: calibrate_body_def emit_def Let_def split: sum.splits prod.splits)

text \<open>
  Because of the call of lines 183--195, \<open>calibration_scan\<close> ends in an exception on
  every input: in one of its own checks, in the scan, or in the \<open>TypeError\<close> of that
  call.
\<close>

lemma calibration_scan_never_returns:
  "\<exists>e. fst (calibration_scan X det detector_fields motor calib_motors calib_fields
               start stop steps window_length s) = Inl e"
  by (auto simp: calibration_scan_def calibration_centroid_scan_def pbind_def tell_def
      call_def ret_def raise_def Let_def split: sum.splits prod.splits)

section \<open>Facts about the store\<close>

lemma corrections_in_refines:
  "scan \<noteq> corr \<Longrightarrow> scan < length h \<Longrightarrow> corr < length h \<Longrightarrow>
   corrections_in rnd h scan corr chs = (eo, h') \<Longrightarrow>
   length h' = length h \<and> (\<forall>a. a \<noteq> corr \<longrightarrow> h' ! a = h ! a)
   \<and> (case eo of None \<Rightarrow> corrections rnd (h ! scan) chs (h ! corr) = Inr (h' ! corr)
              | Some e \<Rightarrow> corrections rnd (h ! scan) chs (h ! corr) = Inl e)"
proof (induction rnd h scan corr chs arbitrary: eo h' rule: corrections_in.induct)
  case (1 rnd h scan corr)
  then show ?case by auto
next
  case (2 rnd h scan corr scale start cfld dfld rest)
  show ?case
  proof (cases "getcol (h ! scan) dfld")
    case (Inl e)
    with "2.prems" show ?thesis by auto
  next
    case (Inr d)
    show ?thesis
    proof (cases "iloc0 d")
      case (Inl e)
      with Inr "2.prems" show ?thesis by auto
    next
      case d0: (Inr d0)
      let ?h1 = "h[corr := setcol (h ! corr) (cfld @ ''_post_abs'') (map (\<lambda>v. fl_sub rnd start (fl_mul rnd (fl_sub rnd v d0) scale)) d)]"
      let ?a = "map (\<lambda>v. fl_sub rnd start (fl_mul rnd (fl_sub rnd v d0) scale)) d"
      have a: "getcol (?h1 ! corr) (cfld @ ''_post_abs'') = Inr ?a"
        using "2.prems"(3) by (simp add: getcol_setcol)
      have sc1: "?h1 ! scan = h ! scan" using "2.prems"(1) by simp
      show ?thesis
      proof (cases "getcol (h ! scan) (cfld @ ''_pre'')")
        case (Inl e)
        with Inr d0 a sc1 "2.prems" show ?thesis by (auto simp: Let_def)
      next
        case pre: (Inr pre)
        let ?h2 = "?h1[corr := setcol (?h1 ! corr) (cfld @ ''_post_rel'') (map2 (fl_sub rnd) ?a pre)]"
        from "2.prems"(4) Inr d0 a sc1 pre
        have rest: "corrections_in rnd ?h2 scan corr rest = (eo, h')" by (simp add: Let_def)
        have pre1: "getcol (?h1 ! scan) (cfld @ ''_pre'') = Inr pre" using sc1 pre by simp
        have l2: "scan < length ?h2" "corr < length ?h2" using "2.prems" by simp_all
        from "2.IH"[OF Inr d0 refl a pre1 "2.prems"(1) l2 rest]
        have ih: "length h' = length ?h2" "\<forall>a. a \<noteq> corr \<longrightarrow> h' ! a = ?h2 ! a"
          "(case eo of None \<Rightarrow> corrections rnd (?h2 ! scan) rest (?h2 ! corr) = Inr (h' ! corr)
              | Some e \<Rightarrow> corrections rnd (?h2 ! scan) rest (?h2 ! corr) = Inl e)" by blast+
        have s2: "?h2 ! scan = h ! scan" using "2.prems"(1) by simp
        have c2: "?h2 ! corr = setcol (setcol (h ! corr) (cfld @ ''_post_abs'') ?a)
                      (cfld @ ''_post_rel'') (map2 (fl_sub rnd) ?a pre)"
          using "2.prems"(3) by simp
        have step: "corrections rnd (h ! scan) ((scale, start, cfld, dfld) # rest) (h ! corr) =
              corrections rnd (h ! scan) rest (setcol (setcol (h ! corr) (cfld @ ''_post_abs'') ?a)
                      (cfld @ ''_post_rel'') (map2 (fl_sub rnd) ?a pre))"
          using Inr d0 pre by (simp add: Let_def getcol_setcol)
        from ih s2 c2 step show ?thesis by (auto split: option.splits)
      qed
    qed
  qed
qed

lemma build_calibration_df_in_refines:
  assumes scan: "scan < length h"
    and run: "build_calibration_df_in rnd h scan scaling start_positions det = (r, h')"
  shows "length h \<le> length h' \<and> take (length h) h' = h
       \<and> deref h' r = build_calibration_df rnd (h ! scan) scaling start_positions det"
proof (cases "length (detector_fields_of (h ! scan) det) \<noteq> length (calib_fields_of (h ! scan))")
  case True
  with run show ?thesis
    by (auto simp: build_calibration_df_in_def build_calibration_df_def deref_def Let_def)
next
  case False
  let ?df = "h ! scan"
  let ?h1 = "h @ [\<lparr>index = index ?df, columns = []\<rparr>]"
  let ?chs = "zip scaling (zip start_positions (zip (calib_fields_of ?df) (detector_fields_of ?df det)))"
  obtain eo h2 where c: "corrections_in rnd ?h1 scan (length h) ?chs = (eo, h2)"
    by (cases "corrections_in rnd ?h1 scan (length h) ?chs") auto
  have ne: "scan \<noteq> length h" using scan by simp
  have l1: "scan < length ?h1" "length h < length ?h1" using scan by simp_all
  from corrections_in_refines[OF ne l1 c]
  have len2: "length h2 = length ?h1"
    and same: "\<forall>a. a \<noteq> length h \<longrightarrow> h2 ! a = ?h1 ! a"
    and ref: "(case eo of None \<Rightarrow> corrections rnd (?h1 ! scan) ?chs (?h1 ! length h) = Inr (h2 ! length h)
              | Some e \<Rightarrow> corrections rnd (?h1 ! scan) ?chs (?h1 ! length h) = Inl e)" by blast+
  have s1: "?h1 ! scan = ?df" using scan by (simp add: nth_append)
  have c1: "?h1 ! length h = \<lparr>index = index ?df, columns = []\<rparr>" by simp
  have s2: "h2 ! scan = ?df" using same ne s1 by simp
  have tk: "take (length h) h2 = h"
  proof (rule nth_equalityI)
    show "length (take (length h) h2) = length h" using len2 by simp
    fix i assume "i < length (take (length h) h2)"
    then have i: "i < length h" by simp
    then have "h2 ! i = ?h1 ! i" using same by simp
    with i show "take (length h) h2 ! i = h ! i" by (simp add: nth_append)
  qed
  show ?thesis
  proof (cases eo)
    case (Some e)
    with run False c have "r = Inl e" "h' = h2"
      by (simp_all add: build_calibration_df_in_def Let_def)
    moreover from ref Some s1 c1 have "corrections rnd ?df ?chs \<lparr>index = index ?df, columns = []\<rparr> = Inl e"
      by simp
    ultimately show ?thesis using False tk len2
      by (simp add: build_calibration_df_def deref_def Let_def)
  next
    case None
    with ref s1 c1 have cor: "corrections rnd ?df ?chs \<lparr>index = index ?df, columns = []\<rparr> = Inr (h2 ! length h)"
      by simp
    show ?thesis
    proof (cases "select ?df (motor_fields_of ?df det)")
      case (Inl e)
      with run False c None s2 have "r = Inl e" "h' = h2"
        by (simp_all add: build_calibration_df_in_def Let_def)
      then show ?thesis using False tk len2 cor Inl
        by (simp add: build_calibration_df_def deref_def Let_def)
    next
      case (Inr ms)
      let ?sel = "\<lparr>index = index ?df, columns = ms\<rparr>"
      let ?out = "\<lparr>index = index ?df, columns = ms @ columns (h2 ! length h)\<rparr>"
      from run False c None s2 Inr len2
      have r: "r = Inr (Suc (length h2))" and h': "h' = (h2 @ [?sel]) @ [?out]"
        by (simp_all add: build_calibration_df_in_def Let_def nth_append)
      have "h' ! Suc (length h2) = ?out" unfolding h' by (simp add: nth_append)
      moreover have "take (length h) h' = h" unfolding h' using tk len2 by simp
      moreover have "length h \<le> length h'" unfolding h' using len2 by simp
      ultimately show ?thesis using r False cor Inr
        by (simp add: build_calibration_df_def deref_def Let_def)
    qed
  qed
qed

section \<open>The correction table (lines 454--467)\<close>

text \<open>
  Claim C7, as the code has it. For a well-formed scan frame whose detector fields and
  calibration fields are equally many, \<open>build_calibration_df\<close> returns a table with the
  index of the scan in which, for the \<open>k\<close>-th channel and every row \<open>i\<close>, the column
  \<open>cfld_post_abs\<close> holds \<open>start - (d[i] - d[0]) * scale\<close> as float64 arithmetic computes
  it, each of the three operations rounded, and the column \<open>cfld_post_rel\<close> holds the
  float64 difference of that value and the channel's \<open>cfld_pre\<close> value of the row. These
  are no identities over the real numbers. At row 0 the absolute correction is the
  start position when \<open>d[0]\<close> and the scale are finite and the start position is a finite
  float64 number; with an infinite scale it is NaN. Here \<open>d\<close> is the \<open>k\<close>-th detector
  column, and \<open>scale\<close> and \<open>start\<close> the \<open>k\<close>-th entries of the two lists. The two labels
  written must not already be labels of the scan frame, or the table would carry them
  twice.
\<close>

theorem build_calibration_df_corrections:
  assumes wf: "wf_df df_scan"
    and len: "length (detector_fields_of df_scan det) = length (calib_fields_of df_scan)"
    and k: "k < length scaling" "k < length start_positions" "k < length (calib_fields_of df_scan)"
    and i: "i < length (index df_scan)"
    and fresh: "calib_fields_of df_scan ! k @ ''_post_abs'' \<notin> set (labels df_scan)"
               "calib_fields_of df_scan ! k @ ''_post_rel'' \<notin> set (labels df_scan)"
  shows "\<exists>cal d pre a r.
           build_calibration_df rnd df_scan scaling start_positions det = Inr cal
         \<and> index cal = index df_scan
         \<and> getcol df_scan (detector_fields_of df_scan det ! k) = Inr d
         \<and> getcol df_scan (calib_fields_of df_scan ! k @ ''_pre'') = Inr pre
         \<and> getcol cal (calib_fields_of df_scan ! k @ ''_post_abs'') = Inr a
         \<and> getcol cal (calib_fields_of df_scan ! k @ ''_post_rel'') = Inr r
         \<and> a ! i = fl_sub rnd (start_positions ! k)
                     (fl_mul rnd (fl_sub rnd (d ! i) (d ! 0)) (scaling ! k))
         \<and> ((\<exists>x c st. d ! 0 = Finite x \<and> scaling ! k = Finite c
                \<and> start_positions ! k = Finite st \<and> rnd 0 = Finite 0 \<and> rnd st = Finite st)
              \<longrightarrow> a ! 0 = start_positions ! k)
         \<and> r ! i = fl_sub rnd (a ! i) (pre ! i)"
proof -
  let ?cfl = "calib_fields_of df_scan" and ?dfl = "detector_fields_of df_scan det"
  let ?chs = "zip scaling (zip start_positions (zip ?cfl ?dfl))"
  let ?cfld = "?cfl ! k" and ?dfld = "?dfl ! k"
  let ?scale = "scaling ! k" and ?start = "start_positions ! k"
  let ?acc = "\<lparr>index = index df_scan, columns = []\<rparr>"
  from k len have kd: "k < length ?dfl" by simp
  have dl: "?dfld \<in> set (labels df_scan)"
    using kd detector_field_label nth_mem by blast
  have cl: "?cfld @ ''_pre'' \<in> set (labels df_scan)"
    using k(3) calib_field_pre_label nth_mem by blast
  from getcol_label[OF wf dl] obtain d where d: "getcol df_scan ?dfld = Inr d"
    and dlen: "length d = length (index df_scan)" by blast
  from getcol_label[OF wf cl] obtain pre where pre: "getcol df_scan (?cfld @ ''_pre'') = Inr pre"
    and prelen: "length pre = length (index df_scan)" by blast
  have ok: "\<forall>ch \<in> set ?chs. \<exists>d pre. getcol df_scan (snd (snd (snd ch))) = Inr d \<and> d \<noteq> []
       \<and> getcol df_scan (fst (snd (snd ch)) @ ''_pre'') = Inr pre"
  proof
    fix ch assume "ch \<in> set ?chs"
    then have m: "fst (snd (snd ch)) \<in> set ?cfl" "snd (snd (snd ch)) \<in> set ?dfl"
      using channel_fields by blast+
    from getcol_label[OF wf detector_field_label[OF m(2)]] i
    obtain d' where "getcol df_scan (snd (snd (snd ch))) = Inr d'" "d' \<noteq> []" by fastforce
    moreover from getcol_label[OF wf calib_field_pre_label[OF m(1)]]
    obtain p' where "getcol df_scan (fst (snd (snd ch)) @ ''_pre'') = Inr p'" by auto
    ultimately show "\<exists>d pre. getcol df_scan (snd (snd (snd ch))) = Inr d \<and> d \<noteq> []
       \<and> getcol df_scan (fst (snd (snd ch)) @ ''_pre'') = Inr pre" by blast
  qed
  from corrections_succeeds[OF ok] obtain dfc where dfc: "corrections rnd df_scan ?chs ?acc = Inr dfc"
    by blast
  have sub: "set (motor_fields_of df_scan det) \<subseteq> set (labels df_scan)"
    by (auto simp: motor_fields_of_def)
  from select_labels[OF sub] obtain ms where ms: "select df_scan (motor_fields_of df_scan det) = Inr ms"
    and msl: "map fst ms = motor_fields_of df_scan det" by blast
  let ?cal = "\<lparr>index = index df_scan, columns = ms @ columns dfc\<rparr>"
  have build: "build_calibration_df rnd df_scan scaling start_positions det = Inr ?cal"
    using len dfc ms by (simp add: build_calibration_df_def)
  from wf have dist: "distinct (map (\<lambda>ch. fst (snd (snd ch))) ?chs)"
    by (intro channels_distinct distinct_calib_fields) (simp add: wf_df_def)
  have klen: "k < length ?chs" using k kd by simp
  have nth: "?chs ! k = (?scale, ?start, ?cfld, ?dfld)" using k kd by simp
  let ?a = "map (\<lambda>v. fl_sub rnd ?start (fl_mul rnd (fl_sub rnd v (hd d)) ?scale)) d"
  from corrections_nth[OF dfc klen nth dist d pre]
  have a: "getcol dfc (?cfld @ ''_post_abs'') = Inr ?a"
    and r: "getcol dfc (?cfld @ ''_post_rel'') = Inr (map2 (fl_sub rnd) ?a pre)" by blast+
  have notin: "?cfld @ ''_post_abs'' \<notin> fst ` set ms" "?cfld @ ''_post_rel'' \<notin> fst ` set ms"
  proof -
    have "fst ` set ms = set (motor_fields_of df_scan det)"
      unfolding msl[symmetric] by simp
    with sub fresh show "?cfld @ ''_post_abs'' \<notin> fst ` set ms"
      "?cfld @ ''_post_rel'' \<notin> fst ` set ms" by blast+
  qed
  have ca: "getcol ?cal (?cfld @ ''_post_abs'') = Inr ?a"
    using getcol_append_right[OF notin(1), of "index df_scan" "columns dfc"] a
    by (simp add: getcol_def)
  have cr: "getcol ?cal (?cfld @ ''_post_rel'') = Inr (map2 (fl_sub rnd) ?a pre)"
    using getcol_append_right[OF notin(2), of "index df_scan" "columns dfc"] r
    by (simp add: getcol_def)
  from i dlen have id: "i < length d" by simp
  then have d0: "0 < length d" by (cases d) simp_all
  from d0 have hd: "hd d = d ! 0" by (simp add: hd_conv_nth)
  from i prelen have ip: "i < length pre" by simp
  have ai: "?a ! i = fl_sub rnd ?start (fl_mul rnd (fl_sub rnd (d ! i) (d ! 0)) ?scale)"
    using id hd by simp
  have a0: "(\<exists>x c st. d ! 0 = Finite x \<and> ?scale = Finite c
                \<and> ?start = Finite st \<and> rnd 0 = Finite 0 \<and> rnd st = Finite st)
              \<longrightarrow> ?a ! 0 = ?start"
    using d0 hd by auto
  have ri: "map2 (fl_sub rnd) ?a pre ! i = fl_sub rnd (?a ! i) (pre ! i)" using id ip by simp
  show ?thesis
  proof (intro exI conjI)
    show "build_calibration_df rnd df_scan scaling start_positions det = Inr ?cal" by (rule build)
    show "index ?cal = index df_scan" by simp
    show "getcol df_scan ?dfld = Inr d" by (rule d)
    show "getcol df_scan (?cfld @ ''_pre'') = Inr pre" by (rule pre)
    show "getcol ?cal (?cfld @ ''_post_abs'') = Inr ?a" by (rule ca)
    show "getcol ?cal (?cfld @ ''_post_rel'') = Inr (map2 (fl_sub rnd) ?a pre)" by (rule cr)
    show "?a ! i = fl_sub rnd ?start (fl_mul rnd (fl_sub rnd (d ! i) (d ! 0)) ?scale)" by (rule ai)
    show "(\<exists>x c st. d ! 0 = Finite x \<and> ?scale = Finite c
                \<and> ?start = Finite st \<and> rnd 0 = Finite 0 \<and> rnd st = Finite st)
              \<longrightarrow> ?a ! 0 = ?start" by (rule a0)
    show "map2 (fl_sub rnd) ?a pre ! i = fl_sub rnd (?a ! i) (pre ! i)" by (rule ri)
  qed
qed

text \<open>
  The theorem on the three-step scan, scale 2 and start position 10, at channel 0 and
  row 2.
\<close>

theorem build_calibration_df_corrections_witness:
  "\<exists>cal d pre a r.
      build_calibration_df Finite (float_frame scan3) [Finite 2] [Finite 10] camera = Inr cal
    \<and> index cal = index (float_frame scan3)
    \<and> getcol (float_frame scan3) ''det_x'' = Inr d
    \<and> getcol (float_frame scan3) ''m1_pre'' = Inr pre
    \<and> getcol cal ''m1_post_abs'' = Inr a
    \<and> getcol cal ''m1_post_rel'' = Inr r
    \<and> d = [Finite 1, Finite 2, Finite 4]
    \<and> a ! 2 = fl_sub Finite (Finite 10) (fl_mul Finite (fl_sub Finite (d ! 2) (d ! 0)) (Finite 2))
    \<and> a ! 0 = Finite 10
    \<and> r ! 2 = fl_sub Finite (a ! 2) (pre ! 2)"
proof -
  have wf: "wf_df (float_frame scan3)"
    by (simp add: wf_df_def float_frame_labels scan3_fields) (simp add: float_frame_scan3)
  have len: "length (detector_fields_of (float_frame scan3) camera)
             = length (calib_fields_of (float_frame scan3))"
    by (simp add: float_frame_fields scan3_fields)
  have k: "0 < length [Finite 2]" "0 < length [Finite 10]"
    "0 < length (calib_fields_of (float_frame scan3))"
    by (simp_all add: float_frame_fields scan3_fields)
  have i: "2 < length (index (float_frame scan3))" by (simp add: float_frame_scan3)
  have fresh: "calib_fields_of (float_frame scan3) ! 0 @ ''_post_abs'' \<notin> set (labels (float_frame scan3))"
    "calib_fields_of (float_frame scan3) ! 0 @ ''_post_rel'' \<notin> set (labels (float_frame scan3))"
    by (simp_all add: float_frame_fields float_frame_labels scan3_fields)
  from build_calibration_df_corrections[OF wf len k i fresh, of Finite]
  obtain cal d pre a r where
    b: "build_calibration_df Finite (float_frame scan3) [Finite 2] [Finite 10] camera = Inr cal"
    and ix: "index cal = index (float_frame scan3)"
    and d: "getcol (float_frame scan3) ''det_x'' = Inr d"
    and pre: "getcol (float_frame scan3) ''m1_pre'' = Inr pre"
    and a: "getcol cal ''m1_post_abs'' = Inr a"
    and r: "getcol cal ''m1_post_rel'' = Inr r"
    and ai: "a ! 2 = fl_sub Finite (Finite 10) (fl_mul Finite (fl_sub Finite (d ! 2) (d ! 0)) (Finite 2))"
    and a0: "(\<exists>x c st. d ! 0 = Finite x \<and> Finite 2 = Finite c \<and> Finite 10 = Finite st
               \<and> Finite 0 = Finite 0 \<and> Finite st = Finite st) \<longrightarrow> a ! 0 = Finite 10"
    and ri: "r ! 2 = fl_sub Finite (a ! 2) (pre ! 2)"
    by (auto simp: float_frame_fields scan3_fields)
  from d have dv: "d = [Finite 1, Finite 2, Finite 4]"
    by (simp add: float_frame_scan3 getcol_def)
  with a0 have "a ! 0 = Finite 10" by simp
  with b ix d pre a r dv ai ri show ?thesis by blast
qed

text \<open>
  Claim C7 as stated makes row 0 the start position for every input. With an infinite
  scale, which a division by a zero
  signal change of NumPy floats gives, row 0 is \<open>10 - 0 * inf\<close>, that is NaN, and not
  the start position 10.
\<close>

theorem infinite_scale_loses_start_position:
  "build_calibration_df Finite (float_frame scan3) [PInf] [Finite 10] camera
     = Inr \<lparr>index = [Finite 0, Finite 1, Finite 2],
            columns = [(''delay'', [Finite 0, Finite 1, Finite 2]),
                       (''m1_post_abs'', [NaN, NInf, NInf]),
                       (''m1_post_rel'', [NaN, NInf, NInf])]\<rparr>"
  apply (simp add: build_calibration_df_def float_frame_fields scan3_fields Let_def)
  by (simp add: float_frame_scan3 getcol_def setcol_def iloc0_def labels_def)

section \<open>Claims about the scaling walk\<close>







section \<open>Claims about the scan and the orchestrator\<close>

text \<open>
  Claim C4, as the code has it. Line 159 replaces a missing or empty \<^verbatim>\<open>calib_fields\<close>
  by the names of the calibration motors before anything is compared. When the number
  of calibration motors, or the number of calibration fields after that replacement,
  differs from the number of detector fields, \<open>calibration_scan\<close> raises \<open>ValueError\<close>
  and the state is the one it started from: no request was issued, nothing was logged,
  the world is untouched.
\<close>

theorem calibration_scan_mismatch:
  assumes "length calib_motors \<noteq> length detector_fields
         \<or> length (as_list_fields X (py_or calib_fields (map mname calib_motors)))
              \<noteq> length detector_fields"
  shows "\<exists>msg. calibration_scan X det detector_fields motor calib_motors calib_fields
                 start stop steps window_length s = (Inl (ValueError msg), s)"
  using assms by (auto simp: calibration_scan_def Let_def)

text \<open>One calibration motor against two detector fields: the call stops at line 164.\<close>

theorem calibration_scan_mismatch_witness:
  "\<exists>msg. calibration_scan bench camera [''det_x'', ''det_y''] delay_motor [mirror_motor] None
            0 10 11 9 (0, []) = (Inl (ValueError msg), (0, []))"
  using calibration_scan_mismatch[of "[mirror_motor]" "[''det_x'', ''det_y'']" bench None
          camera delay_motor 0 10 11 9 "(0, [])"]
  by simp

text \<open>
  Claim C4 as stated compares the list the caller gives. With the empty list, one
  motor and one detector field the lengths 0 and 1 differ, yet the motor's name stands
  in for the list, no \<open>ValueError\<close> is raised and the scan is requested.
\<close>

theorem calibration_scan_empty_fields_defaulted:
  "length ([] :: string list) \<noteq> length [''det_x'']
   \<and> calibration_scan bench camera [''det_x''] delay_motor [mirror_motor] (Some []) 0 10 11 9 (0, [])
       = (Inl (TypeError ''detector_scaling_walk() got multiple values for argument first_step''),
          (0, [LogMsg DEBUG ''Beginning calibration scan'' [],
               CentroidScan camera delay_motor 0 10 11 [mirror_motor] [''m1'']]))"
  by (simp add: calibration_scan_def calibration_centroid_scan_def py_or_def pbind_def tell_def
      call_def ret_def raise_def emit_def Let_def bench_def mirror_motor_def)

text \<open>
  Claim C1, on the module as written. A call that does not ask for confirmation reads
  the motor's configuration, warns if a calibration is loaded, and raises \<open>NameError\<close>
  at line 48: \<open>scan_call\<close> is never run, no position is recorded and no restoring
  move is issued.
\<close>

theorem calibrate_motor_name_error:
  "calibrate_motor X scan_call motor calib_motors False s =
     (Inl (NameError ''return_to_start''),
      (fst s, snd s @ ReadConfiguration motor #
         (if has_calib X (fst s) motor \<and> has_motors X (fst s) motor
          then [LogMsg WARNING
                  ''Running the calibration procedure will overwrite the existing calibration.'' []]
          else [])))"
  by (simp add: calibrate_motor_def calibrate_motor_in_def module_return_to_start_def
      calibrate_body_def emit_def Let_def)

text \<open>
  Claim C6, on the module as written. Whatever the arguments, \<open>calibrate_motor\<close> leaves
  the world as it was and issues no request: no scan, measurement, walk or move, and
  no \<open>configure\<close>. The commit of lines 71--72 is never executed.
\<close>

theorem calibrate_motor_never_requests:
  "fst (snd (calibrate_motor X scan_call motor calib_motors confirm_overwrite s)) = fst s
   \<and> filter is_request (snd (snd (calibrate_motor X scan_call motor calib_motors confirm_overwrite s)))
       = filter is_request (snd s)"
proof -
  obtain r s' where p: "prompt_response X (emit (LogMsg WARNING
       ''Running the calibration procedure will overwrite the existing calibration.'' [])
           (emit (ReadConfiguration motor) s)) = (r, s')"
    by (cases "prompt_response X (emit (LogMsg WARNING
       ''Running the calibration procedure will overwrite the existing calibration.'' [])
           (emit (ReadConfiguration motor) s))") auto
  from prompt_response_world[OF p] show ?thesis
    using p
    by (auto simp: calibrate_motor_def calibrate_motor_in_def module_return_to_start_def
        calibrate_body_def emit_def Let_def split: sum.splits)
qed

text \<open>
  Claim C8. When the motor carries a calibration (both configuration values are true)
  and confirmation is on, an answer other than \<open>y\<close> or \<open>Y\<close>, or an \<open>Exception\<close> raised
  by the prompt, makes \<open>calibrate_motor\<close> return without an error, with the world
  unchanged and no request among the events it caused. This holds whatever
  \<^verbatim>\<open>return_to_start\<close> resolves to, so in particular for the module as written.
\<close>

theorem calibrate_motor_declined:
  assumes "has_calib X (fst s) motor" and "has_motors X (fst s) motor"
    and "(\<exists>r. input_builtin X (fst s) = Inr r \<and> lower r \<noteq> ''y'')
       \<or> (\<exists>e. input_builtin X (fst s) = Inl e \<and> is_Exception e)"
  shows "\<exists>evs. calibrate_motor_in return_to_start X scan_call motor calib_motors True s
                 = (Inr (), (fst s, snd s @ evs))
               \<and> filter is_request evs = []"
  using assms
  by (auto simp: calibrate_motor_in_def prompt_response_def emit_def Let_def lower_def lower_char_def)

text \<open>The operator answers \<open>N\<close>: the run ends there, before anything is asked of the
  hardware.\<close>

theorem calibrate_motor_declined_witness:
  "\<exists>evs. calibrate_motor_in None bench (raise RuntimeError) delay_motor [mirror_motor] True (0, [])
            = (Inr (), (0, [] @ evs))
          \<and> filter is_request evs = []"
proof -
  have c: "has_calib bench (fst (0::nat, [])) delay_motor" "has_motors bench (fst (0::nat, [])) delay_motor"
    by (simp_all add: bench_def)
  have a: "(\<exists>r. input_builtin bench (fst (0::nat, [])) = Inr r \<and> lower r \<noteq> ''y'')
         \<or> (\<exists>e. input_builtin bench (fst (0::nat, [])) = Inl e \<and> is_Exception e)"
    by (simp add: bench_def lower_N)
  show ?thesis
    using calibrate_motor_declined[OF c a, of None "raise RuntimeError" "[mirror_motor]"]
    by simp
qed

section \<open>Claim about the discovery of the channels\<close>

text \<open>
  Claim C10, as the code has it. \<open>detector_scaling_walk\<close> and \<open>build_calibration_df\<close>
  take the detector fields and the calibration fields from the labels of the scan
  frame: the labels that contain the detector's name, and the labels that end in
  \<open>_pre\<close> without these four characters. When the two lists differ in length both
  functions raise \<open>ValueError\<close>, the walk before any request; the builder is run on
  \<open>df\<close>, any frame of float64 numbers with the labels of the scan frame. When the walk returns,
  the walks it made are, in order, those of the \<open>i\<close>-th detector field and \<open>i\<close>-th
  calibration field with the \<open>i\<close>-th motor, as far as the shortest of the three lists
  goes, with one scale for each.
\<close>

theorem channels_from_column_names:
  "set (detector_fields_of df_scan det) = {c \<in> set (labels df_scan). contains c (dname det)}
   \<and> calib_fields_of df_scan = map drop_last4 (filter (\<lambda>c. endswith c ''_pre'') (labels df_scan))
   \<and> (length (detector_fields_of df_scan det) \<noteq> length (calib_fields_of df_scan) \<longrightarrow>
        (\<exists>msg. detector_scaling_walk X df_scan det calib_motors system s = (Inl (ValueError msg), s))
      \<and> (labels df = labels df_scan \<longrightarrow>
           (\<exists>msg. build_calibration_df rnd df scaling start_positions det = Inl (ValueError msg))))
   \<and> (detector_scaling_walk X df_scan det calib_motors system s = (Inr res, s') \<longrightarrow>
        walked (snd s') = walked (snd s) @
          map (\<lambda>ch. ([fst ch, fst (snd ch)], snd (snd ch)))
            (zip (detector_fields_of df_scan det)
               (zip (calib_fields_of df_scan) (as_list_motors X calib_motors)))
      \<and> length (fst res) = length (zip (detector_fields_of df_scan det)
               (zip (calib_fields_of df_scan) (as_list_motors X calib_motors))))"
proof (intro conjI impI)
  show "set (detector_fields_of df_scan det) = {c \<in> set (labels df_scan). contains c (dname det)}"
    by (simp add: detector_fields_of_def)
  show "calib_fields_of df_scan = map drop_last4 (filter (\<lambda>c. endswith c ''_pre'') (labels df_scan))"
    by (simp add: calib_fields_of_def)
next
  assume "length (detector_fields_of df_scan det) \<noteq> length (calib_fields_of df_scan)"
  then show "\<exists>msg. detector_scaling_walk X df_scan det calib_motors system s = (Inl (ValueError msg), s)"
    by (simp add: detector_scaling_walk_def Let_def)
next
  assume "length (detector_fields_of df_scan det) \<noteq> length (calib_fields_of df_scan)"
    and "labels df = labels df_scan"
  then show "\<exists>msg. build_calibration_df rnd df scaling start_positions det = Inl (ValueError msg)"
    by (simp add: build_calibration_df_def detector_fields_of_def calib_fields_of_def Let_def)
next
  assume run: "detector_scaling_walk X df_scan det calib_motors system s = (Inr res, s')"
  then have w: "walk_channels X df_scan det (as_list_motors X system @ as_list_motors X calib_motors) 0
           (zip (detector_fields_of df_scan det)
               (zip (calib_fields_of df_scan) (as_list_motors X calib_motors))) ([], []) s = (Inr res, s')"
    by (simp add: detector_scaling_walk_def Let_def split: if_splits)
  from walk_channels_walked[OF w]
  show "walked (snd s') = walked (snd s) @
          map (\<lambda>ch. ([fst ch, fst (snd ch)], snd (snd ch)))
            (zip (detector_fields_of df_scan det)
               (zip (calib_fields_of df_scan) (as_list_motors X calib_motors)))"
    and "length (fst res) = length (zip (detector_fields_of df_scan det)
               (zip (calib_fields_of df_scan) (as_list_motors X calib_motors)))"
    by simp_all
qed

text \<open>
  The theorem at two frames. With one more detector column the lengths differ and both
  functions raise. With one more column that matches both conventions the lengths
  agree, and that column is walked as a second channel with the second motor.
\<close>

theorem channels_from_column_names_witness:
  "(\<exists>msg. detector_scaling_walk bench scan3_extra camera [mirror_motor] [] (0, [])
            = (Inl (ValueError msg), (0, [])))
   \<and> (\<exists>msg. build_calibration_df Finite (float_frame scan3_extra) [Finite 2] [Finite 5] camera
               = Inl (ValueError msg))
   \<and> (\<exists>res s'. detector_scaling_walk bench2 scan3_both camera [mirror_motor, spare_motor] [] (0, [])
            = (Inr res, s')
        \<and> walked (snd s') = [([''det_x'', ''m1''], mirror_motor),
                               ([''det_m2_pre'', ''det_m2''], spare_motor)]
        \<and> length (fst res) = 2)"
proof -
  have a: "(\<exists>msg. detector_scaling_walk bench scan3_extra camera [mirror_motor] [] (0, [])
            = (Inl (ValueError msg), (0, [])))
      \<and> (\<exists>msg. build_calibration_df Finite (float_frame scan3_extra) [Finite 2] [Finite 5] camera
               = Inl (ValueError msg))"
    using channels_from_column_names[where df_scan = scan3_extra and det = camera and X = bench
        and calib_motors = "[mirror_motor]" and system = "[]" and s = "(0, [])"
        and df = "float_frame scan3_extra" and rnd = Finite
        and scaling = "[Finite 2]" and start_positions = "[Finite 5]"]
    by (simp add: scan3_extra_fields float_frame_labels)
  from scan3_both_run obtain s' where
    run: "detector_scaling_walk bench2 scan3_both camera [mirror_motor, spare_motor] [] (0, [])
          = (Inr ([2, 3], [5, 4]), s')" by blast
  have al: "as_list_motors bench2 = (\<lambda>l. l)" by (simp add: bench2_def bench_def)
  have b: "walked (snd s') = [([''det_x'', ''m1''], mirror_motor),
                               ([''det_m2_pre'', ''det_m2''], spare_motor)]
        \<and> length (fst ([2, 3 :: real], [5, 4 :: real])) = 2"
    using channels_from_column_names[where df_scan = scan3_both and det = camera and X = bench2
        and calib_motors = "[mirror_motor, spare_motor]" and system = "[]" and s = "(0, [])"
        and res = "([2, 3], [5, 4])" and s' = s'] run
    by (simp add: scan3_both_fields al)
  from a b run show ?thesis by auto
qed

text \<open>
  Claim C10 as stated lets any extraneous column that matches a naming convention
  become a channel silently. The column \<open>det_total\<close> matches the detector's name, and
  both functions raise \<open>ValueError\<close>; the walk issues no request.
\<close>

theorem extraneous_detector_column_raises:
  "detector_fields_of scan3_extra camera = [''det_x'', ''det_total'']
   \<and> calib_fields_of scan3_extra = [''m1'']
   \<and> (\<exists>msg. detector_scaling_walk bench scan3_extra camera [mirror_motor] [] (0, [])
               = (Inl (ValueError msg), (0, [])))
   \<and> (\<exists>msg. build_calibration_df Finite (float_frame scan3_extra) [Finite 2] [Finite 5] camera
               = Inl (ValueError msg))"
proof -
  have f: "detector_fields_of scan3_extra camera = [''det_x'', ''det_total'']"
    "calib_fields_of scan3_extra = [''m1'']"
    by (simp_all add: scan3_extra_def scan3_def camera_def detector_fields_of_def
        calib_fields_of_def labels_def endswith_def drop_last4_def)
  then show ?thesis
    by (simp add: detector_scaling_walk_def build_calibration_df_def float_frame_fields Let_def)
qed

section \<open>Claim about the purity of the table builder\<close>

text \<open>
  Claim C9. Run \<open>build_calibration_df\<close> on a store, and once more on the store the first
  run leaves. Every frame that existed before is unchanged, the scan frame among them:
  the function writes only to frames it has created. What it returns, frame or
  exception, is the value of the function \<open>build_calibration_df\<close> of the scan frame and
  the two lists, so it depends on nothing else, and the second run returns the same as
  the first. The function has no world and no events: it is no plan.
\<close>

theorem build_calibration_df_pure:
  assumes "scan < length h"
    and "build_calibration_df_in rnd h scan scaling start_positions det = (r, h')"
    and "build_calibration_df_in rnd h' scan scaling start_positions det = (r2, h'')"
  shows "take (length h) h' = h \<and> h' ! scan = h ! scan \<and> h'' ! scan = h ! scan
       \<and> deref h' r = build_calibration_df rnd (h ! scan) scaling start_positions det
       \<and> deref h'' r2 = deref h' r"
proof -
  from build_calibration_df_in_refines[OF assms(1,2)]
  have le: "length h \<le> length h'" and tk: "take (length h) h' = h"
    and d1: "deref h' r = build_calibration_df rnd (h ! scan) scaling start_positions det" by blast+
  from tk assms(1) have s1: "h' ! scan = h ! scan" by (metis nth_take)
  from le assms(1) have sc': "scan < length h'" by simp
  from build_calibration_df_in_refines[OF sc' assms(3)]
  have tk2: "take (length h') h'' = h'"
    and d2: "deref h'' r2 = build_calibration_df rnd (h' ! scan) scaling start_positions det" by blast+
  from tk2 sc' have s2: "h'' ! scan = h' ! scan" by (metis nth_take)
  from tk s1 s2 d1 d2 show ?thesis by simp
qed

text \<open>Two runs on a store that holds the three-step scan.\<close>

theorem build_calibration_df_pure_witness:
  "take (length [float_frame scan3]) (snd (build_calibration_df_in Finite [float_frame scan3] 0 [Finite 2] [Finite 10] camera)) = [float_frame scan3]
   \<and> deref (snd (build_calibration_df_in Finite [float_frame scan3] 0 [Finite 2] [Finite 10] camera))
            (fst (build_calibration_df_in Finite [float_frame scan3] 0 [Finite 2] [Finite 10] camera))
       = Inr \<lparr>index = [Finite 0, Finite 1, Finite 2],
              columns = [(''delay'', [Finite 0, Finite 1, Finite 2]),
                         (''m1_post_abs'', [Finite 10, Finite 8, Finite 4]),
                         (''m1_post_rel'', [Finite 5, Finite 3, Finite (- 2)])]\<rparr>
   \<and> deref (snd (build_calibration_df_in Finite (snd (build_calibration_df_in Finite [float_frame scan3] 0 [Finite 2] [Finite 10] camera))
                   0 [Finite 2] [Finite 10] camera))
            (fst (build_calibration_df_in Finite (snd (build_calibration_df_in Finite [float_frame scan3] 0 [Finite 2] [Finite 10] camera))
                   0 [Finite 2] [Finite 10] camera))
       = deref (snd (build_calibration_df_in Finite [float_frame scan3] 0 [Finite 2] [Finite 10] camera))
            (fst (build_calibration_df_in Finite [float_frame scan3] 0 [Finite 2] [Finite 10] camera))"
proof -
  have l: "0 < length [float_frame scan3]" by simp
  have v: "build_calibration_df Finite ([float_frame scan3] ! 0) [Finite 2] [Finite 10] camera
           = Inr \<lparr>index = [Finite 0, Finite 1, Finite 2],
              columns = [(''delay'', [Finite 0, Finite 1, Finite 2]),
                         (''m1_post_abs'', [Finite 10, Finite 8, Finite 4]),
                         (''m1_post_rel'', [Finite 5, Finite 3, Finite (- 2)])]\<rparr>"
    apply (simp add: build_calibration_df_def float_frame_fields scan3_fields Let_def)
    by (simp add: float_frame_scan3 getcol_def setcol_def iloc0_def labels_def)
  show ?thesis
    using build_calibration_df_pure[OF l prod.collapse[symmetric] prod.collapse[symmetric],
            of Finite "[Finite 2]" "[Finite 10]" camera] v
    by simp
qed

end
